theory Spec2Isabelle
  imports Main "HOL-Library.Char_ord" "HOL-Library.List_Lexorder"
begin

section \<open>The ingestion pipeline of tools/ingest.py\<close>

text \<open>
  The module defines the class \<open>VectorSearch\<close> (existence probe, document conversion,
  index creation and loading, querying) and the orchestrator \<open>main\<close>. The model below
  follows the source statement by statement. Everything the code does beyond returning a
  value is explicit: the file system, the database as it answers at the moment, and the
  sequence of calls to the outside (console, database, converter, index library) are
  carried in a \<open>world\<close> record that every operation takes and returns, and every
  \<open>raise\<close> of the source is an \<open>Inl\<close> result.

  Library calls that the source makes without a handler (docling's converter, the
  index constructors, the query engine, pathlib's mkdir, the prints of the fixed messages
  and of the final answer) are modelled by their normal return and by the event they
  leave in the trace. Standard output is open throughout. Three calls are modelled with
  their failures:
  \<^item> the query primitive of the database manager, which the source guards with
    \<open>try\<close>/\<open>except\<close>;
  \<^item> the formatting and the printing of the exception inside the handler of that guard,
    since what escapes the handler escapes the method;
  \<^item> the directory reader of \<open>create_index\<close>, which raises when it finds no file to
    read.
\<close>

subsection \<open>Python values and exceptions\<close>

text \<open>
  The part of Python's exception hierarchy the source depends on: \<open>except Exception\<close>
  catches every class derived from \<open>Exception\<close> and none of the classes that derive from
  \<open>BaseException\<close> beside it (\<open>asyncio.CancelledError\<close> is one of them). The two
  \<open>Other\<close> constructors stand for any further class of either kind, by its name.
\<close>

datatype exc_class =
    KeyboardInterrupt
  | SystemExit
  | GeneratorExit
  | CancelledError
  | OtherBaseException string
  | RuntimeError
  | ConnectionError
  | ValueError
  | IndexError
  | TypeError
  | UnicodeEncodeError
  | OtherException string

text \<open>An exception object: its class and what \<open>str(e)\<close> gives, which is a text, or
  another exception when the class overrides \<open>__str__\<close> with a method that raises.\<close>

datatype exc =
    Exc (exc_cls: exc_class) string
  | Exc_str_raises (exc_cls: exc_class) exc

fun exc_str :: "exc \<Rightarrow> exc + string" where
  "exc_str (Exc c text) = Inr text"
| "exc_str (Exc_str_raises c e) = Inl e"

fun is_Exception :: "exc_class \<Rightarrow> bool" where
  "is_Exception KeyboardInterrupt = False"
| "is_Exception SystemExit = False"
| "is_Exception GeneratorExit = False"
| "is_Exception CancelledError = False"
| "is_Exception (OtherBaseException _) = False"
| "is_Exception _ = True"

text \<open>The values a query primitive can hand back, as far as the probe inspects them.\<close>

datatype pyval =
    PNone
  | PBool bool
  | PInt int
  | PStr string
  | PList "pyval list"
  | PTuple "pyval list"

datatype 'a outcome = Returns 'a | Raises exc

text \<open>\<open>isinstance(v, list)\<close>.\<close>

fun isinstance_list :: "pyval \<Rightarrow> bool" where
  "isinstance_list (PList _) = True"
| "isinstance_list _ = False"

text \<open>Truth value testing, as \<open>and\<close> and \<open>if\<close> apply it.\<close>

fun truthy :: "pyval \<Rightarrow> bool" where
  "truthy PNone = False"
| "truthy (PBool b) = b"
| "truthy (PInt i) = (i \<noteq> 0)"
| "truthy (PStr s) = (s \<noteq> [])"
| "truthy (PList xs) = (xs \<noteq> [])"
| "truthy (PTuple xs) = (xs \<noteq> [])"

text \<open>\<open>v[0]\<close>: the first element of a sequence, IndexError on an empty one, TypeError on a
  value that is not subscriptable.\<close>

fun getitem0 :: "pyval \<Rightarrow> exc + pyval" where
  "getitem0 (PList []) = Inl (Exc IndexError ''list index out of range'')"
| "getitem0 (PList (x # _)) = Inr x"
| "getitem0 (PTuple []) = Inl (Exc IndexError ''tuple index out of range'')"
| "getitem0 (PTuple (x # _)) = Inr x"
| "getitem0 (PStr []) = Inl (Exc IndexError ''string index out of range'')"
| "getitem0 (PStr (c # _)) = Inr (PStr [c])"
| "getitem0 PNone =
     Inl (Exc TypeError ([CHR 0x27] @ ''NoneType'' @ [CHR 0x27] @ '' object is not subscriptable''))"
| "getitem0 (PBool _) =
     Inl (Exc TypeError ([CHR 0x27] @ ''bool'' @ [CHR 0x27] @ '' object is not subscriptable''))"
| "getitem0 (PInt _) =
     Inl (Exc TypeError ([CHR 0x27] @ ''int'' @ [CHR 0x27] @ '' object is not subscriptable''))"

subsection \<open>Paths\<close>

text \<open>
  A relative \<open>pathlib.Path\<close> is the list of its components: \<open>Path("./db/converted")\<close> is
  \<open>[''db'', ''converted'']\<close>, and \<open>dir / name\<close> appends a component.
\<close>

type_synonym path = "string list"

definition path_name :: "path \<Rightarrow> string" where
  "path_name p = (if p = [] then [] else last p)"

text \<open>\<open>str.rfind\<close> for a single character: the highest index holding it, or \<open>-1\<close>.\<close>

definition rfind :: "string \<Rightarrow> char \<Rightarrow> int" where
  "rfind s c = (case filter (\<lambda>i. s ! i = c) (rev [0..<length s]) of
                  [] \<Rightarrow> -1
                | i # _ \<Rightarrow> int i)"

text \<open>\<open>PurePath.stem\<close>: the final component without its last suffix; a leading or a
  trailing dot does not start a suffix.\<close>

definition stem :: "path \<Rightarrow> string" where
  "stem p =
     (let name = path_name p; i = rfind name (CHR ''.'')
      in if 0 < i \<and> i < int (length name) - 1 then take (nat i) name else name)"

text \<open>\<open>str(path)\<close>: the components joined by the separator, \<open>.\<close> for the empty path.\<close>

fun path_str :: "path \<Rightarrow> string" where
  "path_str [] = ''.''"
| "path_str [part] = part"
| "path_str (part # rest) = part @ ''/'' @ path_str rest"

text \<open>A hidden path, as the directory reader tells it: some component starts with a dot
  and is neither \<open>.\<close> nor \<open>..\<close>.\<close>

definition is_hidden :: "path \<Rightarrow> bool" where
  "is_hidden p = list_ex (\<lambda>part. take 1 part = ''.'' \<and> part \<noteq> ''.'' \<and> part \<noteq> ''..'') p"

text \<open>\<open>str.replace(old, new)\<close>, every occurrence from the left.\<close>

function replace :: "string \<Rightarrow> string \<Rightarrow> string \<Rightarrow> string" where
  "replace old new s =
     (if old = [] then new @ concat (map (\<lambda>c. c # new) s)
      else if s = [] then []
      else if take (length old) s = old then new @ replace old new (drop (length old) s)
      else hd s # replace old new (tl s))"
  by pat_completeness auto
termination
  by (relation "measure (\<lambda>(old, new, s). length s)") auto

declare replace.simps [simp del]

subsection \<open>The outside world\<close>

datatype conversion_status = SUCCESS | PARTIAL_SUCCESS | FAILURE

text \<open>A converted document, by the JSON text of \<open>json.dumps(document.export_to_dict())\<close>.\<close>

datatype docling_document = DoclingDocument (export_json: string)

record conversion_result =
  status :: conversion_status
  input_file :: path
  document :: docling_document

datatype pg_vector_store =
  PGVectorStore (connection_string: string) (async_connection_string: string)
    (store_table_name: string) (schema_name: string) (embed_dim: nat)

text \<open>A document that the directory reader has loaded, by the file it was read from and
  the content of that file.\<close>

type_synonym loaded_document = "path \<times> string"

text \<open>An index handle, by the library constructor that made it.\<close>

datatype vector_store_index =
    From_documents pg_vector_store "loaded_document list"
  | From_vector_store pg_vector_store

datatype event =
    Print string
  | TestConnection
  | GetEnv string
  | ExecuteQuery string
  | Mkdir path
  | ConvertAll "path list"
  | WriteFile path string
  | LoadData path
  | EmbedDocuments pg_vector_store "loaded_document list"
  | BindVectorStore pg_vector_store
  | QueryIndex vector_store_index string

text \<open>The encoding of standard output: one that covers ASCII only, or one that covers
  every character. A text is a list of bytes; the bytes of a character beyond ASCII are
  all 128 or more.\<close>

datatype encoding = ASCII | UTF8

fun encodable :: "encoding \<Rightarrow> char \<Rightarrow> bool" where
  "encodable ASCII c = ((of_char c :: nat) < 128)"
| "encodable UTF8 c = True"

text \<open>The world: the files and the directories on disk, the encoding of standard output,
  whether the database accepts a connection, what it answers (or raises) to a raw query,
  and the calls made so far.\<close>

record world =
  files :: "(path \<times> string) list"
  dirs :: "path list"
  stdout_encoding :: encoding
  db_reachable :: bool
  db_answer :: "string \<Rightarrow> pyval outcome"
  trace :: "event list"

definition emit :: "event \<Rightarrow> world \<Rightarrow> world" where
  "emit e w = w\<lparr>trace := trace w @ [e]\<rparr>"

text \<open>\<open>print(text)\<close> with its failure: a text that standard output cannot encode raises
  UnicodeEncodeError and nothing is printed. (The message of the error is abridged.)\<close>

definition print_line :: "string \<Rightarrow> world \<Rightarrow> exc option \<times> world" where
  "print_line text w =
     (if list_all (encodable (stdout_encoding w)) text
      then (None, emit (Print text) w)
      else (Some (Exc UnicodeEncodeError ''ordinal not in range(128)''), w))"

text \<open>\<open>path.mkdir(parents=True, exist_ok=True)\<close>: the directory and its missing ancestors
  are made.\<close>

definition mkdir :: "path \<Rightarrow> world \<Rightarrow> world" where
  "mkdir p w =
     emit (Mkdir p)
       (w\<lparr>dirs := dirs w @
                filter (\<lambda>d. d \<notin> set (dirs w)) (map (\<lambda>n. take n p) [1..<Suc (length p)])\<rparr>)"

text \<open>A directory is on disk when it was made, when something lies under it, or when it
  is the working directory.\<close>

definition is_dir :: "world \<Rightarrow> path \<Rightarrow> bool" where
  "is_dir w d =
     (d = [] \<or> d \<in> set (dirs w) \<or>
      list_ex (\<lambda>(p, c). length d < length p \<and> take (length d) p = d) (files w))"

text \<open>Opening a file with mode \<open>"w"\<close> and writing: the file is created, or its content
  replaced.\<close>

fun put_file :: "path \<Rightarrow> string \<Rightarrow> (path \<times> string) list \<Rightarrow> (path \<times> string) list" where
  "put_file p c [] = [(p, c)]"
| "put_file p c ((q, d) # fs) = (if q = p then (p, c) # fs else (q, d) # put_file p c fs)"

definition write_file :: "path \<Rightarrow> string \<Rightarrow> world \<Rightarrow> world" where
  "write_file p c w = emit (WriteFile p c) (w\<lparr>files := put_file p c (files w)\<rparr>)"

text \<open>
  Modelled from the spec: \<open>tools.db.DatabaseManager\<close> is imported by the module and is
  not part of it. The spec calls it the connection provider, which supplies a database
  connection string and a raw-query execution primitive. The manager holds the
  connection string; \<open>test_connection\<close> and \<open>execute_query\<close> hand back what the database
  of the world answers when they are called.
\<close>

record database_manager =
  get_connection_string :: string

definition test_connection :: "database_manager \<Rightarrow> world \<Rightarrow> bool \<times> world" where
  "test_connection dm w = (db_reachable w, emit TestConnection w)"

definition execute_query :: "database_manager \<Rightarrow> string \<Rightarrow> world \<Rightarrow> pyval outcome \<times> world" where
  "execute_query dm q w = (db_answer w q, emit (ExecuteQuery q) w)"

subsection \<open>VectorSearch\<close>

record vector_search =
  db_manager :: database_manager
  table_name :: string
  vector_store :: pg_vector_store
  has_vectors :: bool

text \<open>The f-string of \<open>_check_vectors_exist\<close>, line by line.\<close>

definition exists_query :: "string \<Rightarrow> string" where
  "exists_query tn =
     [CHR 0x0A] @
     ''            SELECT EXISTS ('' @ [CHR 0x0A] @
     ''                SELECT FROM information_schema.tables '' @ [CHR 0x0A] @
     ''                WHERE table_schema = '' @ [CHR 0x27] @ ''public'' @ [CHR 0x27] @ '' '' @ [CHR 0x0A] @
     ''                AND table_name = '' @ [CHR 0x27] @ ''data_'' @ tn @ [CHR 0x27] @ [CHR 0x0A] @
     ''            );'' @ [CHR 0x0A] @
     ''        ''"

text \<open>The body of the \<open>try\<close> block, after the query primitive has answered.\<close>

fun probe_result :: "pyval outcome \<Rightarrow> exc + bool" where
  "probe_result (Raises e) = Inl e"
| "probe_result (Returns result) =
     (if isinstance_list result then
        (case getitem0 result of
           Inl e \<Rightarrow> Inl e
         | Inr row \<Rightarrow>
             (case getitem0 row of
                Inl e \<Rightarrow> Inl e
              | Inr flag \<Rightarrow> if truthy flag then Inr True else Inr False))
      else Inr False)"

text \<open>\<open>VectorSearch._check_vectors_exist\<close>. The handler is \<open>except Exception\<close>: an
  exception of another class leaves the method. Inside the handler the f-string calls
  \<open>str(e)\<close> and \<open>print\<close> writes the line; an exception raised by either leaves the
  method too.\<close>

definition check_vectors_exist :: "vector_search \<Rightarrow> world \<Rightarrow> (exc + bool) \<times> world" where
  "check_vectors_exist self w =
     (let query = exists_query (table_name self)
      in case execute_query (db_manager self) query w of
           (answer, w1) \<Rightarrow>
             (case probe_result answer of
                Inr b \<Rightarrow> (Inr b, w1)
              | Inl e \<Rightarrow>
                  if is_Exception (exc_cls e)
                  then (case exc_str e of
                          Inl e' \<Rightarrow> (Inl e', w1)
                        | Inr text \<Rightarrow>
                            (case print_line (''Error checking vector store: '' @ text) w1 of
                               (Some e', w2) \<Rightarrow> (Inl e', w2)
                             | (None, w2) \<Rightarrow> (Inr False, w2)))
                  else (Inl e, w1)))"

text \<open>\<open>VectorSearch.__init__\<close>. The attribute \<open>has_vectors\<close> does not exist until the probe
  has returned; the probe reads \<open>db_manager\<close> and \<open>table_name\<close> only.\<close>

definition init :: "database_manager \<Rightarrow> world \<Rightarrow> (exc + vector_search) \<times> world" where
  "init dm w =
     (let connection_string = get_connection_string dm;
          async_connection_string =
            replace ''postgresql://'' ''postgresql+asyncpg://'' connection_string;
          self = \<lparr>db_manager = dm,
                  table_name = ''vector_store'',
                  vector_store = PGVectorStore connection_string async_connection_string
                                   ''vector_store'' ''public'' 384,
                  has_vectors = False\<rparr>
      in case check_vectors_exist self w of
           (Inl e, w') \<Rightarrow> (Inl e, w')
         | (Inr b, w') \<Rightarrow> (Inr (self\<lparr>has_vectors := b\<rparr>), w'))"

text \<open>Decimal rendering of an integer inside an f-string.\<close>

fun str_of_nat :: "nat \<Rightarrow> string" where
  "str_of_nat n =
     (if n < 10 then [''0123456789'' ! n]
      else str_of_nat (n div 10) @ [''0123456789'' ! (n mod 10)])"

definition str_of_int :: "int \<Rightarrow> string" where
  "str_of_int i = (if i < 0 then ''-'' @ str_of_nat (nat (- i)) else str_of_nat (nat i))"

text \<open>
  docling's \<open>DocumentConverter\<close>, by what it makes of one file. The spec has it take a
  file path and return a structured document or a failure status per file, never raising
  for an individual failure in batch mode: \<open>convert_all(input_paths, raises_on_error=False)\<close>
  yields one result per input path, in order, each carrying its input.
\<close>

type_synonym document_converter = "path \<Rightarrow> conversion_status \<times> docling_document"

definition convert_all :: "document_converter \<Rightarrow> path list \<Rightarrow> conversion_result list" where
  "convert_all conv input_paths =
     map (\<lambda>p. \<lparr>status = fst (conv p), input_file = p, document = snd (conv p)\<rparr>) input_paths"

text \<open>The \<open>for result in results\<close> loop of \<open>convert_documents\<close>, on the three counters and
  the world. The loop body has the single branch for \<open>SUCCESS\<close>.\<close>

fun convert_loop ::
  "path \<Rightarrow> conversion_result list \<Rightarrow> (int \<times> int \<times> int) \<times> world \<Rightarrow> (int \<times> int \<times> int) \<times> world"
where
  "convert_loop output_dir [] acc = acc"
| "convert_loop output_dir (result # results)
       ((success_count, partial_success_count, failure_count), w) =
     (if status result = SUCCESS then
        (let doc_filename = stem (input_file result);
             w' = write_file (output_dir @ [doc_filename @ ''.json''])
                    (export_json (document result)) w
         in convert_loop output_dir results
              ((success_count + 1, partial_success_count, failure_count), w'))
      else convert_loop output_dir results
             ((success_count, partial_success_count, failure_count), w))"

text \<open>\<open>VectorSearch.convert_documents\<close>. Every method returns the object along with its
  result, so that what it does to the attributes is part of the model.\<close>

definition convert_documents ::
  "document_converter \<Rightarrow> vector_search \<Rightarrow> path list \<Rightarrow> path \<Rightarrow> world
     \<Rightarrow> (exc + int \<times> int \<times> int) \<times> vector_search \<times> world"
where
  "convert_documents conv self input_paths output_dir w =
     (let w1 = mkdir output_dir w;
          w2 = emit (ConvertAll input_paths) w1;
          results = convert_all conv input_paths;
          ((success_count, partial_success_count, failure_count), w3) =
             convert_loop output_dir results ((0, 0, 0), w2)
      in if failure_count > 0
         then (Inl (Exc RuntimeError
                 (''Failed converting '' @ str_of_int failure_count @ '' of '' @
                  str_of_int (int (length input_paths)) @ '' documents.'')), self, w3)
         else (Inr (success_count, partial_success_count, failure_count), self, w3))"

text \<open>\<open>VectorSearch.load_index\<close>. Its result has the type of the result of
  \<open>create_index\<close>, which returns it; the method has no failure of its own.\<close>

definition load_index ::
  "vector_search \<Rightarrow> world \<Rightarrow> (exc + vector_store_index) \<times> vector_search \<times> world"
where
  "load_index self w =
     (let w1 = emit (Print ''Loading existing vectors from database...'') w;
          w2 = emit (BindVectorStore (vector_store self)) w1
      in (Inr (From_vector_store (vector_store self)), self, w2))"

text \<open>The files that \<open>SimpleDirectoryReader(input_dir)\<close> picks: the files directly under
  the directory (the reader does not descend) that are not hidden, sorted by path.\<close>

definition input_files :: "path \<Rightarrow> world \<Rightarrow> loaded_document list" where
  "input_files docs_dir w =
     sort_key fst
       (filter (\<lambda>(p, c). p \<noteq> [] \<and> butlast p = docs_dir \<and> \<not> is_hidden p) (files w))"

text \<open>\<open>SimpleDirectoryReader(input_dir, file_extractor).load_data()\<close>: one document per
  file picked. The constructor raises ValueError when the directory is not on disk and
  when it picks no file.\<close>

definition load_data :: "path \<Rightarrow> world \<Rightarrow> exc + loaded_document list" where
  "load_data docs_dir w =
     (if \<not> is_dir w docs_dir
      then Inl (Exc ValueError (''Directory '' @ path_str docs_dir @ '' does not exist.''))
      else if input_files docs_dir w = []
      then Inl (Exc ValueError (''No files found in '' @ path_str docs_dir @ ''.''))
      else Inr (input_files docs_dir w))"

text \<open>\<open>VectorSearch.create_index\<close>.\<close>

definition create_index ::
  "vector_search \<Rightarrow> path \<Rightarrow> bool \<Rightarrow> world
     \<Rightarrow> (exc + vector_store_index) \<times> vector_search \<times> world"
where
  "create_index self docs_dir force_rebuild w =
     (if has_vectors self \<and> \<not> force_rebuild then load_index self w
      else
        (let w1 = emit (Print ''Creating new vector store...'') w;
             w2 = emit (LoadData docs_dir) w1
         in case load_data docs_dir w2 of
              Inl e \<Rightarrow> (Inl e, self, w2)
            | Inr documents \<Rightarrow>
                (Inr (From_documents (vector_store self) documents), self,
                 emit (EmbedDocuments (vector_store self) documents) w2)))"

text \<open>\<open>VectorSearch.query\<close>; the query engine of the index library, by its answer.\<close>

type_synonym query_engine = "vector_store_index \<Rightarrow> string \<Rightarrow> string"

definition query ::
  "query_engine \<Rightarrow> vector_search \<Rightarrow> vector_store_index \<Rightarrow> string \<Rightarrow> world
     \<Rightarrow> string \<times> vector_search \<times> world"
where
  "query engine self index query_text w =
     (engine index query_text, self, emit (QueryIndex index query_text) w)"

subsection \<open>The orchestrator\<close>

text \<open>What \<open>main\<close> finds around it: the manager that \<open>DatabaseManager(db_type='vecdb')\<close>
  constructs, the process environment, the converter and the query engine.\<close>

record environment =
  new_database_manager :: database_manager
  getenv :: "string \<Rightarrow> string option"
  converter :: document_converter
  engine :: query_engine

definition main :: "environment \<Rightarrow> bool \<Rightarrow> world \<Rightarrow> (exc + unit) \<times> world" where
  "main env force_rebuild w =
     (let input_docs = [[''db'', ''Chinook Data Dictionary.docx''],
                        [''db'', ''Chinook Data Model.docx'']];
          output_dir = [''db'', ''converted''];
          dm = new_database_manager env;
          (connected, w1) = test_connection dm w
      in if \<not> connected
         then (Inl (Exc ConnectionError ''Database connection failed''), w1)
         else
           (let w2 = emit (GetEnv ''OPENAI_API_KEY'') w1;
                api_key = getenv env ''OPENAI_API_KEY''
            in if api_key = None \<or> api_key = Some []
               then (Inl (Exc ValueError ''OPENAI_API_KEY not found in environment variables''), w2)
               else
                 (case init dm w2 of
                    (Inl e, w3) \<Rightarrow> (Inl e, w3)
                  | (Inr searcher, w3) \<Rightarrow>
                      (let (r, w6) =
                             (if force_rebuild \<or> \<not> has_vectors searcher then
                                (let w4 = emit (Print ''Converting documents and creating index...'') w3
                                 in case convert_documents (converter env) searcher input_docs
                                           output_dir w4 of
                                      (Inl e, searcher1, w5) \<Rightarrow> (Inl e, w5)
                                    | (Inr counts, searcher1, w5) \<Rightarrow>
                                        (case create_index searcher1 output_dir force_rebuild w5 of
                                           (Inl e, searcher2, w6) \<Rightarrow> (Inl e, w6)
                                         | (Inr index, searcher2, w6) \<Rightarrow>
                                             (Inr (index, searcher2), w6)))
                              else
                                (let w4 = emit (Print ''Using existing vector index'') w3
                                 in case load_index searcher w4 of
                                      (Inl e, searcher1, w5) \<Rightarrow> (Inl e, w5)
                                    | (Inr index, searcher1, w5) \<Rightarrow>
                                        (Inr (index, searcher1), w5)))
                       in case r of
                            Inl e \<Rightarrow> (Inl e, w6)
                          | Inr (index, searcher') \<Rightarrow>
                              (case query (engine env) searcher' index
                                      ''What is the album table?'' w6 of
                                 (result, searcher'', w7) \<Rightarrow>
                                   (Inr (), emit (Print result) w7))))))"

subsection \<open>Observing a run\<close>

text \<open>The calls an operation added to the trace.\<close>

definition new_events :: "world \<Rightarrow> world \<Rightarrow> event list" where
  "new_events w w' = drop (length (trace w)) (trace w')"

fun is_document_read :: "event \<Rightarrow> bool" where
  "is_document_read (LoadData _) = True"
| "is_document_read _ = False"

fun is_embedding_call :: "event \<Rightarrow> bool" where
  "is_embedding_call (EmbedDocuments _ _) = True"
| "is_embedding_call _ = False"

fun is_execute_query :: "event \<Rightarrow> bool" where
  "is_execute_query (ExecuteQuery _) = True"
| "is_execute_query _ = False"

text \<open>The stages of the pipeline, as they show in the trace: the batch conversion, the
  embedding of documents into the store, the binding of a handle to the existing store,
  and a query with its text.\<close>

datatype stage = Conversion_Stage | Indexing_Stage | Load_Index | Query_Stage string

fun stage_of :: "event \<Rightarrow> stage option" where
  "stage_of (ConvertAll _) = Some Conversion_Stage"
| "stage_of (EmbedDocuments _ _) = Some Indexing_Stage"
| "stage_of (BindVectorStore _) = Some Load_Index"
| "stage_of (QueryIndex _ q) = Some (Query_Stage q)"
| "stage_of _ = None"

definition stages :: "event list \<Rightarrow> stage list" where
  "stages t = List.map_filter stage_of t"

text \<open>The output file of an input path: \<open>output_dir / f"{stem}.json"\<close>.\<close>

definition json_path :: "path \<Rightarrow> path \<Rightarrow> path" where
  "json_path output_dir input = output_dir @ [stem input @ ''.json'']"

text \<open>A query primitive that returns, or raises an exception derived from \<open>Exception\<close>.\<close>

fun raises_only_Exception :: "pyval outcome \<Rightarrow> bool" where
  "raises_only_Exception (Returns _) = True"
| "raises_only_Exception (Raises e) = is_Exception (exc_cls e)"

text \<open>The line the handler of the probe prints for a text, and whether standard output
  can encode a text.\<close>

definition error_line :: "string \<Rightarrow> string" where
  "error_line text = ''Error checking vector store: '' @ text"

definition printable :: "world \<Rightarrow> string \<Rightarrow> bool" where
  "printable w text = list_all (encodable (stdout_encoding w)) text"

text \<open>A query primitive whose exception, if it raises one, the handler can report:
  \<open>str(e)\<close> returns a text and standard output can encode the line.\<close>

fun reportable :: "world \<Rightarrow> pyval outcome \<Rightarrow> bool" where
  "reportable w (Returns _) = True"
| "reportable w (Raises e) =
     (case exc_str e of Inl _ \<Rightarrow> False | Inr text \<Rightarrow> printable w (error_line text))"

text \<open>The files directly under a directory that are not hidden.\<close>

definition readable_under :: "path \<Rightarrow> world \<Rightarrow> loaded_document set" where
  "readable_under docs_dir w =
     {(p, c). (p, c) \<in> set (files w) \<and> p \<noteq> [] \<and> butlast p = docs_dir \<and> \<not> is_hidden p}"

fun raises :: "pyval outcome \<Rightarrow> bool" where
  "raises (Returns _) = False"
| "raises (Raises _) = True"

text \<open>The rows of an \<open>EXISTS\<close> query as the driver hands them back: a list of one-column
  tuples, each holding a boolean.\<close>

definition exists_rows :: "bool list \<Rightarrow> pyval" where
  "exists_rows flags = PList (map (\<lambda>b. PTuple [PBool b]) flags)"


text \<open>The world that \<open>convert_documents\<close> leaves: the directory made, the batch handed
  to the converter, and the loop run over its results.\<close>

definition after_conversion :: "document_converter \<Rightarrow> path list \<Rightarrow> path \<Rightarrow> world \<Rightarrow> world" where
  "after_conversion conv ps out w =
     snd (convert_loop out (convert_all conv ps)
            ((0, 0, 0), emit (ConvertAll ps) (mkdir out w)))"

subsection \<open>Sample inputs\<close>

definition sample_manager :: database_manager where
  "sample_manager = \<lparr>get_connection_string = ''postgresql://user@host/vecdb''\<rparr>"

text \<open>An empty disk, a standard output that encodes every character, and a reachable
  database that gives one answer to every query.\<close>

definition sample_world :: "pyval outcome \<Rightarrow> world" where
  "sample_world a =
     \<lparr>files = [], dirs = [], stdout_encoding = UTF8, db_reachable = True,
      db_answer = (\<lambda>q. a), trace = []\<rparr>"

text \<open>The same with a standard output that encodes ASCII only.\<close>

definition ascii_world :: "pyval outcome \<Rightarrow> world" where
  "ascii_world a = (sample_world a)\<lparr>stdout_encoding := ASCII\<rparr>"


definition unreachable_world :: world where
  "unreachable_world = (sample_world (Raises (Exc ConnectionError ''connection refused'')))
                          \<lparr>db_reachable := False\<rparr>"

definition sample_searcher :: "bool \<Rightarrow> vector_search" where
  "sample_searcher b =
     \<lparr>db_manager = sample_manager,
      table_name = ''vector_store'',
      vector_store = PGVectorStore ''postgresql://user@host/vecdb''
                       ''postgresql+asyncpg://user@host/vecdb'' ''vector_store'' ''public'' 384,
      has_vectors = b\<rparr>"

text \<open>A converter that fails on \<open>bad.docx\<close>, converts \<open>part.docx\<close> in part and every other
  file in full.\<close>

definition sample_converter :: document_converter where
  "sample_converter p =
     (if path_name p = ''bad.docx'' then FAILURE
      else if path_name p = ''part.docx'' then PARTIAL_SUCCESS
      else SUCCESS,
      DoclingDocument ''{}'')"

text \<open>A converter that converts every file in part.\<close>

definition partial_converter :: document_converter where
  "partial_converter p = (PARTIAL_SUCCESS, DoclingDocument ''{}'')"

definition sample_engine :: query_engine where
  "sample_engine index q = ''The album table lists albums.''"

definition sample_environment :: "string option \<Rightarrow> environment" where
  "sample_environment key =
     \<lparr>new_database_manager = sample_manager,
      getenv = (\<lambda>name. if name = ''OPENAI_API_KEY'' then key else None),
      converter = sample_converter,
      engine = sample_engine\<rparr>"

text \<open>The same environment with the converter that converts every file in part.\<close>

definition partial_environment :: environment where
  "partial_environment = (sample_environment (Some ''sk-test''))\<lparr>converter := partial_converter\<rparr>"

section \<open>Properties\<close>

subsection \<open>Bookkeeping\<close>

lemma trace_emit: "trace (emit e w) = trace w @ [e]"
  by (simp add: emit_def)

lemma files_emit: "files (emit e w) = files w"
  by (simp add: emit_def)

lemma dirs_emit: "dirs (emit e w) = dirs w"
  by (simp add: emit_def)

lemma db_answer_emit: "db_answer (emit e w) = db_answer w"
  by (simp add: emit_def)

lemma stdout_encoding_emit: "stdout_encoding (emit e w) = stdout_encoding w"
  by (simp add: emit_def)

lemma trace_mkdir: "trace (mkdir p w) = trace w @ [Mkdir p]"
  by (simp add: mkdir_def trace_emit)

lemma files_mkdir: "files (mkdir p w) = files w"
  by (simp add: mkdir_def files_emit)

lemma stages_Nil: "stages [] = []"
  by (simp add: stages_def List.map_filter_simps)

lemma stages_Cons:
  "stages (e # es) = (case stage_of e of None \<Rightarrow> stages es | Some s \<Rightarrow> s # stages es)"
  by (simp add: stages_def List.map_filter_simps split: option.splits)

lemma stages_append: "stages (xs @ ys) = stages xs @ stages ys"
  by (induction xs) (simp_all add: stages_Nil stages_Cons split: option.splits)

lemma stages_writes: "stages (map (\<lambda>p. WriteFile (f p) (g p)) ps) = []"
  by (induction ps) (simp_all add: stages_Nil stages_Cons)

lemma db_answer_sample_world: "db_answer (sample_world a) q = a"
  by (simp add: sample_world_def)

lemma db_reachable_sample_world: "db_reachable (sample_world a)"
  by (simp add: sample_world_def)

lemma printable_sample_world: "printable (sample_world a) text"
  by (simp add: printable_def sample_world_def list_all_iff)

lemma getenv_sample_environment: "getenv (sample_environment key) ''OPENAI_API_KEY'' = key"
  by (simp add: sample_environment_def)

lemma stem_a: "stem [''a.docx''] = ''a''"
  by code_simp

lemma stem_b: "stem [''b.docx''] = ''b''"
  by code_simp

subsection \<open>The existence probe\<close>

lemma printable_iff:
  "printable w text = (stdout_encoding w = UTF8 \<or> list_all (encodable ASCII) text)"
  by (cases "stdout_encoding w") (simp_all add: printable_def list_all_iff)

lemma ascii_prefix: "list_all (encodable ASCII) ''Error checking vector store: ''"
  by code_simp

lemma ascii_error_line:
  "list_all (encodable ASCII) (error_line text) = list_all (encodable ASCII) text"
  using ascii_prefix by (simp add: error_line_def)

lemma getitem0_error:
  "getitem0 v = Inl e \<Longrightarrow>
   is_Exception (exc_cls e) \<and> (\<exists>text. exc_str e = Inr text \<and> printable w (error_line text))"
  by (erule getitem0.elims) (simp_all add: printable_iff ascii_error_line)

lemma probe_result_error:
  "probe_result (Returns result) = Inl e \<Longrightarrow>
   is_Exception (exc_cls e) \<and> (\<exists>text. exc_str e = Inr text \<and> printable w (error_line text))"
  by (auto split: if_splits sum.splits dest: getitem0_error)

lemma check_vectors_exist_cases:
  "check_vectors_exist self w =
     (case probe_result (db_answer w (exists_query (table_name self))) of
        Inr b \<Rightarrow> (Inr b, emit (ExecuteQuery (exists_query (table_name self))) w)
      | Inl e \<Rightarrow>
          if is_Exception (exc_cls e)
          then (case exc_str e of
                  Inl e' \<Rightarrow> (Inl e', emit (ExecuteQuery (exists_query (table_name self))) w)
                | Inr text \<Rightarrow>
                    if printable w (error_line text)
                    then (Inr False,
                          emit (Print (error_line text))
                            (emit (ExecuteQuery (exists_query (table_name self))) w))
                    else (Inl (Exc UnicodeEncodeError ''ordinal not in range(128)''),
                          emit (ExecuteQuery (exists_query (table_name self))) w))
          else (Inl e, emit (ExecuteQuery (exists_query (table_name self))) w))"
  by (simp add: check_vectors_exist_def execute_query_def Let_def print_line_def printable_def
      error_line_def stdout_encoding_emit split: sum.splits)

lemma check_vectors_exist_has_vectors_irrelevant:
  "check_vectors_exist (self\<lparr>has_vectors := b\<rparr>) w = check_vectors_exist self w"
  by (simp add: check_vectors_exist_cases split: sum.splits)


lemma check_vectors_exist_trace:
  "\<exists>es. trace (snd (check_vectors_exist self w)) = trace w @ es \<and> stages es = [] \<and>
        filter is_execute_query es = [ExecuteQuery (exists_query (table_name self))]"
  by (simp add: check_vectors_exist_cases trace_emit stages_Nil stages_Cons split: sum.splits)



lemma init_Inr:
  assumes "init dm w = (Inr self, w')"
  shows "db_manager self = dm" and "table_name self = ''vector_store''"
    and "check_vectors_exist self w = (Inr (has_vectors self), w')"
proof -
  let ?self0 = "\<lparr>db_manager = dm, table_name = ''vector_store'',
                 vector_store = PGVectorStore (get_connection_string dm)
                   (replace ''postgresql://'' ''postgresql+asyncpg://'' (get_connection_string dm))
                   ''vector_store'' ''public'' 384,
                 has_vectors = False\<rparr>"
  obtain r w1 where c: "check_vectors_exist ?self0 w = (r, w1)"
    by (cases "check_vectors_exist ?self0 w")
  from assms c obtain b where r: "r = Inr b" and self: "self = ?self0\<lparr>has_vectors := b\<rparr>" and w': "w' = w1"
    by (cases r) (auto simp add: init_def Let_def)
  from self show "db_manager self = dm" by simp
  from self show "table_name self = ''vector_store''" by simp
  have "check_vectors_exist self w = check_vectors_exist ?self0 w"
    unfolding self by (rule check_vectors_exist_has_vectors_irrelevant)
  with c r self w' show "check_vectors_exist self w = (Inr (has_vectors self), w')"
    by simp
qed

lemma init_trace:
  assumes "init dm w = (r, w')"
  shows "\<exists>es. trace w' = trace w @ es \<and> stages es = [] \<and>
              filter is_execute_query es = [ExecuteQuery (exists_query ''vector_store'')]"
proof -
  let ?self0 = "\<lparr>db_manager = dm, table_name = ''vector_store'',
                 vector_store = PGVectorStore (get_connection_string dm)
                   (replace ''postgresql://'' ''postgresql+asyncpg://'' (get_connection_string dm))
                   ''vector_store'' ''public'' 384,
                 has_vectors = False\<rparr>"
  from assms have "w' = snd (check_vectors_exist ?self0 w)"
    by (auto simp add: init_def Let_def split: prod.splits sum.splits)
  with check_vectors_exist_trace [of ?self0 w] show ?thesis
    by simp
qed

lemma init_no_reads:
  assumes "init dm w = (r, w')"
  shows "filter is_document_read (new_events w w') = []"
proof -
  let ?self0 = "\<lparr>db_manager = dm, table_name = ''vector_store'',
                 vector_store = PGVectorStore (get_connection_string dm)
                   (replace ''postgresql://'' ''postgresql+asyncpg://'' (get_connection_string dm))
                   ''vector_store'' ''public'' 384,
                 has_vectors = False\<rparr>"
  from assms have w': "w' = snd (check_vectors_exist ?self0 w)"
    by (auto simp add: init_def Let_def split: prod.splits sum.splits)
  show ?thesis
    unfolding w'
    by (simp add: check_vectors_exist_cases new_events_def trace_emit split: sum.splits)
qed

lemma init_sample_manager:
  "db_answer w (exists_query ''vector_store'') = Returns (exists_rows [b]) \<Longrightarrow>
   init sample_manager w
     = (Inr (sample_searcher b), emit (ExecuteQuery (exists_query ''vector_store'')) w)"
  by (simp add: init_def check_vectors_exist_cases sample_manager_def
      sample_searcher_def exists_rows_def Let_def replace.simps)

lemma init_sample:
  "init sample_manager (sample_world (Returns (exists_rows [b])))
     = (Inr (sample_searcher b),
        emit (ExecuteQuery (exists_query ''vector_store'')) (sample_world (Returns (exists_rows [b]))))"
  by (simp add: init_sample_manager db_answer_sample_world)

lemma init_in_main_sample:
  "init (new_database_manager (sample_environment key))
     (emit (GetEnv ''OPENAI_API_KEY'') (emit TestConnection (sample_world (Returns (exists_rows [b])))))
   = (Inr (sample_searcher b),
      emit (ExecuteQuery (exists_query ''vector_store''))
        (emit (GetEnv ''OPENAI_API_KEY'')
           (emit TestConnection (sample_world (Returns (exists_rows [b]))))))"
proof -
  have "new_database_manager (sample_environment key) = sample_manager"
    by (simp add: sample_environment_def)
  then show ?thesis
    by (simp add: init_sample_manager db_answer_emit db_answer_sample_world)
qed

text \<open>
  Claim C3, as amended. Whenever the query primitive returns, or raises an exception
  derived from \<open>Exception\<close> that the handler can report (\<open>str(e)\<close> returns a text, and
  standard output can encode the line), the existence check hands a boolean back to its
  caller and propagates nothing; whenever the primitive raises such an exception, the
  boolean is false. The errors that the check's own indexing of the result raises are
  caught and reported by the same handler. What is not caught: every exception of a class
  that does not derive from \<open>Exception\<close> leaves the check as it is, and so does the
  exception that \<open>str(e)\<close> raises inside the handler, and the UnicodeEncodeError of a
  line that standard output cannot encode.
\<close>

theorem check_vectors_exist_catches_Exception:
  "(raises_only_Exception (db_answer w (exists_query (table_name self))) \<and>
    reportable w (db_answer w (exists_query (table_name self))) \<longrightarrow>
      (\<exists>b. fst (check_vectors_exist self w) = Inr b) \<and>
      (raises (db_answer w (exists_query (table_name self)))
         \<longrightarrow> fst (check_vectors_exist self w) = Inr False)) \<and>
   (\<forall>e. db_answer w (exists_query (table_name self)) = Raises e \<and> \<not> is_Exception (exc_cls e)
      \<longrightarrow> fst (check_vectors_exist self w) = Inl e) \<and>
   (\<forall>e e'. db_answer w (exists_query (table_name self)) = Raises e \<and> is_Exception (exc_cls e) \<and>
      exc_str e = Inl e'
      \<longrightarrow> fst (check_vectors_exist self w) = Inl e') \<and>
   (\<forall>e text. db_answer w (exists_query (table_name self)) = Raises e \<and> is_Exception (exc_cls e) \<and>
      exc_str e = Inr text \<and> \<not> printable w (error_line text)
      \<longrightarrow> (\<exists>e'. fst (check_vectors_exist self w) = Inl e' \<and> exc_cls e' = UnicodeEncodeError))"
proof -
  let ?a = "db_answer w (exists_query (table_name self))"
  have caught: "(\<exists>b. fst (check_vectors_exist self w) = Inr b) \<and>
      (raises ?a \<longrightarrow> fst (check_vectors_exist self w) = Inr False)"
    if only: "raises_only_Exception ?a" and rep: "reportable w ?a"
  proof (cases ?a)
    case (Returns result)
    show ?thesis
    proof (cases "probe_result (Returns result)")
      case (Inl e)
      from probe_result_error [OF Inl, of w] Inl Returns show ?thesis
        by (auto simp add: check_vectors_exist_cases)
    next
      case (Inr b)
      with Returns show ?thesis
        by (simp add: check_vectors_exist_cases)
    qed
  next
    case (Raises e)
    with only rep show ?thesis
      by (auto simp add: check_vectors_exist_cases split: sum.splits)
  qed
  have base: "fst (check_vectors_exist self w) = Inl e"
    if "?a = Raises e" and "\<not> is_Exception (exc_cls e)" for e
    using that by (simp add: check_vectors_exist_cases)
  have str: "fst (check_vectors_exist self w) = Inl e'"
    if "?a = Raises e" and "is_Exception (exc_cls e)" and "exc_str e = Inl e'" for e e'
    using that by (simp add: check_vectors_exist_cases)
  have enc: "\<exists>e'. fst (check_vectors_exist self w) = Inl e' \<and> exc_cls e' = UnicodeEncodeError"
    if "?a = Raises e" and "is_Exception (exc_cls e)" and "exc_str e = Inr t"
      and "\<not> printable w (error_line t)" for e t
    using that by (simp add: check_vectors_exist_cases)
  from caught base str enc show ?thesis
    by blast
qed

text \<open>
  Claim C3 as stated fails, in three ways. The handler is \<open>except Exception\<close>, so an
  interrupt raised while the query runs reaches the caller. A driver error whose
  \<open>__str__\<close> raises makes the f-string of the handler raise. A driver error with a
  message beyond ASCII makes \<open>print\<close> raise on a standard output that encodes ASCII only.
\<close>

theorem check_vectors_exist_interrupt_counterexample:
  "fst (check_vectors_exist (sample_searcher False)
          (sample_world (Raises (Exc KeyboardInterrupt [])))) = Inl (Exc KeyboardInterrupt []) \<and>
   fst (check_vectors_exist (sample_searcher False)
          (sample_world (Raises (Exc_str_raises (OtherException ''DriverError'')
                                   (Exc TypeError ''__str__ returned non-string'')))))
     = Inl (Exc TypeError ''__str__ returned non-string'') \<and>
   fst (check_vectors_exist (sample_searcher False)
          (ascii_world (Raises (Exc (OtherException ''OperationalError'')
                                  (''acc'' @ [CHR 0xC3, CHR 0xA8] @ ''s refus'' @ [CHR 0xC3, CHR 0xA9])))))
     = Inl (Exc UnicodeEncodeError ''ordinal not in range(128)'')"
  by (simp add: check_vectors_exist_cases sample_world_def ascii_world_def printable_iff
      ascii_error_line)

text \<open>
  Witness for C3: a driver error raised by the query is caught and the check answers
  false; a cancellation is not caught.
\<close>

theorem check_vectors_exist_catches_Exception_witness:
  "raises_only_Exception (Raises (Exc (OtherException ''OperationalError'') ''connection refused'')) \<and>
   raises (Raises (Exc (OtherException ''OperationalError'') ''connection refused'')) \<and>
   fst (check_vectors_exist (sample_searcher True)
          (sample_world (Raises (Exc (OtherException ''OperationalError'') ''connection refused''))))
     = Inr False \<and>
   fst (check_vectors_exist (sample_searcher True)
          (sample_world (Raises (Exc CancelledError []))))
     = Inl (Exc CancelledError [])"
  using check_vectors_exist_catches_Exception
    [of "sample_world (Raises (Exc (OtherException ''OperationalError'') ''connection refused''))"
        "sample_searcher True"]
    check_vectors_exist_catches_Exception
    [of "sample_world (Raises (Exc CancelledError []))" "sample_searcher True"]
  by (simp add: db_answer_sample_world printable_sample_world)



subsection \<open>Document conversion\<close>

lemma convert_loop_counts:
  "fst (convert_loop out rs ((s, p, f), w)) =
     (s + int (length (filter (\<lambda>r. status r = SUCCESS) rs)), p, f)"
  by (induction rs arbitrary: s w) (simp_all add: Let_def)

lemma convert_loop_trace:
  "trace (snd (convert_loop out rs (c, w))) =
     trace w @ map (\<lambda>r. WriteFile (json_path out (input_file r)) (export_json (document r)))
                 (filter (\<lambda>r. status r = SUCCESS) rs)"
proof (induction rs arbitrary: c w)
  case Nil
  then show ?case by simp
next
  case (Cons r rs)
  obtain s p f where c: "c = (s, p, f)"
    by (cases c)
  show ?case
    unfolding c using Cons.IH
    by (simp add: Let_def write_file_def trace_emit json_path_def)
qed

lemma set_put_file: "fst ` set (put_file p c fs) = insert p (fst ` set fs)"
  by (induction p c fs rule: put_file.induct) (auto simp add: image_iff)

lemma convert_loop_files:
  "fst ` set (files (snd (convert_loop out rs (c, w)))) =
     fst ` set (files w) \<union>
     set (map (\<lambda>r. json_path out (input_file r)) (filter (\<lambda>r. status r = SUCCESS) rs))"
proof (induction rs arbitrary: c w)
  case Nil
  then show ?case by simp
next
  case (Cons r rs)
  obtain s p f where c: "c = (s, p, f)"
    by (cases c)
  show ?case
    unfolding c using Cons.IH
    by (auto simp add: Let_def write_file_def files_emit json_path_def set_put_file)
qed

lemma filter_convert_all:
  "filter (\<lambda>r. status r = st) (convert_all conv ps) =
     convert_all conv (filter (\<lambda>p. fst (conv p) = st) ps)"
  by (induction ps) (simp_all add: convert_all_def)

lemma convert_documents_result:
  "convert_documents conv self ps out w =
     (Inr (int (length (filter (\<lambda>p. fst (conv p) = SUCCESS) ps)), 0, 0), self,
      after_conversion conv ps out w)"
proof -
  let ?w2 = "emit (ConvertAll ps) (mkdir out w)"
  obtain s p f w3 where l: "convert_loop out (convert_all conv ps) ((0, 0, 0), ?w2) = ((s, p, f), w3)"
    by (metis surj_pair)
  from convert_loop_counts [of out "convert_all conv ps" 0 0 0 ?w2] l
  have "s = int (length (filter (\<lambda>p. fst (conv p) = SUCCESS) ps))" and "p = 0" and "f = 0"
    by (simp_all add: filter_convert_all) (simp add: convert_all_def)
  with l show ?thesis
    by (simp add: convert_documents_def after_conversion_def Let_def)
qed

lemma trace_after_conversion:
  "trace (after_conversion conv ps out w) =
     trace w @ [Mkdir out, ConvertAll ps] @
     map (\<lambda>p. WriteFile (json_path out p) (export_json (snd (conv p))))
       (filter (\<lambda>p. fst (conv p) = SUCCESS) ps)"
  by (simp add: after_conversion_def convert_loop_trace trace_emit trace_mkdir filter_convert_all)
    (simp add: convert_all_def comp_def)

lemma files_after_conversion:
  "fst ` set (files (after_conversion conv ps out w)) =
     fst ` set (files w) \<union> json_path out ` {p \<in> set ps. fst (conv p) = SUCCESS}"
  by (simp add: after_conversion_def convert_loop_files files_emit files_mkdir filter_convert_all)
    (simp add: convert_all_def image_image)

lemma convert_loop_dirs: "dirs (snd (convert_loop out rs (c, w))) = dirs w"
proof (induction rs arbitrary: c w)
  case Nil
  then show ?case by simp
next
  case (Cons r rs)
  obtain s p f where c: "c = (s, p, f)"
    by (cases c)
  show ?case
    unfolding c using Cons.IH
    by (simp add: Let_def write_file_def dirs_emit)
qed

lemma is_dir_after_conversion: "is_dir (after_conversion conv ps out w) out"
proof (cases "out = []")
  case True
  then show ?thesis
    by (simp add: is_dir_def)
next
  case False
  then have "out \<in> set (map (\<lambda>n. take n out) [1..<Suc (length out)])"
    by (cases out) (auto simp add: image_iff intro!: bexI [of _ "length out"])
  then have "out \<in> set (dirs (mkdir out w))"
    by (auto simp add: mkdir_def dirs_emit)
  then show ?thesis
    by (simp add: is_dir_def after_conversion_def convert_loop_dirs dirs_emit)
qed

lemma readable_after_conversion:
  assumes "p \<in> set ps" and "fst (conv p) = SUCCESS" and "\<not> is_hidden (json_path out p)"
  shows "readable_under out (after_conversion conv ps out w) \<noteq> {}"
proof -
  from assms(1,2) have "json_path out p \<in> fst ` set (files (after_conversion conv ps out w))"
    by (simp add: files_after_conversion)
  then obtain c where "(json_path out p, c) \<in> set (files (after_conversion conv ps out w))"
    by auto
  with assms(3) have "(json_path out p, c) \<in> readable_under out (after_conversion conv ps out w)"
    by (simp add: readable_under_def json_path_def)
  then show ?thesis
    by blast
qed

lemma unreadable_after_conversion:
  assumes "files w = []" and "\<forall>p \<in> set ps. fst (conv p) \<noteq> SUCCESS"
  shows "readable_under out (after_conversion conv ps out w) = {}"
proof -
  from assms(2) have "{p \<in> set ps. fst (conv p) = SUCCESS} = {}"
    by blast
  with assms(1) have "fst ` set (files (after_conversion conv ps out w)) = {}"
    by (simp add: files_after_conversion)
  then show ?thesis
    by (simp add: readable_under_def)
qed

lemma chinook_outputs_visible:
  "\<not> is_hidden (json_path [''db'', ''converted''] [''db'', ''Chinook Data Dictionary.docx''])"
  "\<not> is_hidden (json_path [''db'', ''converted''] [''db'', ''Chinook Data Model.docx''])"
  by code_simp+

text \<open>
  Claim C7. When every input converts with status \<open>SUCCESS\<close>, \<open>convert_documents\<close> returns
  the number of inputs as the success count and 0 for the two other counts; it writes one
  file per input path, in order, named by the input's stem with the suffix \<open>.json\<close>
  under the output directory; and afterwards the disk holds exactly the files it held
  before and these.
\<close>

theorem convert_documents_all_success:
  assumes "\<forall>p \<in> set input_paths. fst (conv p) = SUCCESS"
  shows "fst (convert_documents conv self input_paths output_dir w)
           = Inr (int (length input_paths), 0, 0) \<and>
         new_events w (snd (snd (convert_documents conv self input_paths output_dir w))) =
           [Mkdir output_dir, ConvertAll input_paths] @
           map (\<lambda>p. WriteFile (json_path output_dir p) (export_json (snd (conv p)))) input_paths \<and>
         fst ` set (files (snd (snd (convert_documents conv self input_paths output_dir w)))) =
           fst ` set (files w) \<union> json_path output_dir ` set input_paths"
proof -
  from assms have f: "filter (\<lambda>p. fst (conv p) = SUCCESS) input_paths = input_paths"
    by simp
  from assms have s: "{p \<in> set input_paths. fst (conv p) = SUCCESS} = set input_paths"
    by blast
  show ?thesis
    by (simp add: convert_documents_result trace_after_conversion files_after_conversion
        new_events_def f s)
qed

text \<open>
  Witness for C7, the scenario of the spec: \<open>a.docx\<close> and \<open>b.docx\<close> both convert, the
  result is \<open>(2, 0, 0)\<close> and the output directory holds \<open>a.json\<close> and \<open>b.json\<close>.
\<close>

theorem convert_documents_all_success_witness:
  "fst (sample_converter [''a.docx'']) = SUCCESS \<and>
   fst (sample_converter [''b.docx'']) = SUCCESS \<and>
   fst (convert_documents sample_converter (sample_searcher False) [[''a.docx''], [''b.docx'']]
          [''out''] (sample_world (Returns (exists_rows [False])))) = Inr (2, 0, 0) \<and>
   fst ` set (files (snd (snd (convert_documents sample_converter (sample_searcher False)
          [[''a.docx''], [''b.docx'']] [''out''] (sample_world (Returns (exists_rows [False])))))))
     = {[''out'', ''a.json''], [''out'', ''b.json'']}"
proof -
  let ?ps = "[[''a.docx''], [''b.docx'']]"
  let ?w = "sample_world (Returns (exists_rows [False]))"
  have s: "fst (sample_converter [''a.docx'']) = SUCCESS" "fst (sample_converter [''b.docx'']) = SUCCESS"
    by (simp_all add: sample_converter_def path_name_def)
  then have h: "\<forall>p \<in> set ?ps. fst (sample_converter p) = SUCCESS"
    by simp
  note t = convert_documents_all_success [OF h, of "sample_searcher False" "[''out'']" ?w]
  from t have r: "fst (convert_documents sample_converter (sample_searcher False) ?ps [''out''] ?w)
             = Inr (2, 0, 0)"
    by simp
  have e: "files ?w = []"
    by (simp add: sample_world_def)
  from t have f: "fst ` set (files (snd (snd (convert_documents sample_converter (sample_searcher False)
             ?ps [''out''] ?w)))) = {[''out'', ''a.json''], [''out'', ''b.json'']}"
    by (simp add: e json_path_def stem_a stem_b)
  from s r f show ?thesis
    by blast
qed

text \<open>
  Claim C1 does not hold of the code. The loop of \<open>convert_documents\<close> has a branch for
  \<open>SUCCESS\<close> only, so \<open>failure_count\<close> stays 0 and the \<open>raise\<close> that tests it is never
  reached: on a batch of two files, one of which fails to convert, the method returns
  \<open>(1, 0, 0)\<close> where the claim has it raise "Failed converting 1 of 2 documents.".
\<close>

theorem convert_documents_failure_not_raised:
  "fst (sample_converter [''bad.docx'']) = FAILURE \<and>
   fst (convert_documents sample_converter (sample_searcher False)
          [[''a.docx''], [''bad.docx'']] [''out''] (sample_world (Returns (exists_rows [False]))))
     = Inr (1, 0, 0)"
  by (simp add: convert_documents_result sample_converter_def path_name_def)

text \<open>
  Claim C8 does not hold of the code, by the same missing branches: a result with status
  \<open>PARTIAL_SUCCESS\<close> leaves \<open>partial_success_count\<close> at 0. On a batch of two files, one
  converted in part, the method returns \<open>(1, 0, 0)\<close> where the claim has the partial count
  be 1.
\<close>

theorem convert_documents_partial_not_counted:
  "fst (sample_converter [''part.docx'']) = PARTIAL_SUCCESS \<and>
   fst (convert_documents sample_converter (sample_searcher False)
          [[''a.docx''], [''part.docx'']] [''out''] (sample_world (Returns (exists_rows [False]))))
     = Inr (1, 0, 0)"
  by (simp add: convert_documents_result sample_converter_def path_name_def)

subsection \<open>Creating and loading the index\<close>

lemma load_index_result:
  "load_index self w =
     (Inr (From_vector_store (vector_store self)), self,
      emit (BindVectorStore (vector_store self))
        (emit (Print ''Loading existing vectors from database...'') w))"
  by (simp add: load_index_def Let_def)

lemma input_files_emit: "input_files d (emit e w) = input_files d w"
  by (simp add: input_files_def files_emit)

lemma is_dir_emit: "is_dir (emit e w) d = is_dir w d"
  by (simp add: is_dir_def files_emit dirs_emit)

lemma load_data_emit: "load_data d (emit e w) = load_data d w"
  by (simp add: load_data_def input_files_emit is_dir_emit)

lemma set_input_files: "set (input_files d w) = readable_under d w"
  by (auto simp add: input_files_def readable_under_def)


lemma input_files_Nil: "(input_files d w = []) = (readable_under d w = {})"
  using set_input_files [of d w] by auto

lemma readable_is_dir:
  assumes "readable_under d w \<noteq> {}"
  shows "is_dir w d"
proof -
  from assms obtain p c where f: "(p, c) \<in> set (files w)" and p: "p \<noteq> []" "butlast p = d"
    by (auto simp add: readable_under_def)
  from p have "length d < length p" and "take (length d) p = d"
    by (auto simp add: butlast_conv_take)
  with f show ?thesis
    by (auto simp add: is_dir_def list_ex_iff)
qed

lemma load_data_readable:
  "readable_under d w \<noteq> {} \<Longrightarrow> load_data d w = Inr (input_files d w)"
  by (simp add: load_data_def readable_is_dir input_files_Nil)

lemma load_data_unreadable:
  "readable_under d w = {} \<Longrightarrow> \<exists>e. load_data d w = Inl e \<and> exc_cls e = ValueError"
  by (simp add: load_data_def input_files_Nil)

lemma create_index_rebuild:
  "\<not> (has_vectors self \<and> \<not> force_rebuild) \<Longrightarrow>
   create_index self docs_dir force_rebuild w =
     (case load_data docs_dir w of
        Inl e \<Rightarrow>
          (Inl e, self, emit (LoadData docs_dir) (emit (Print ''Creating new vector store...'') w))
      | Inr documents \<Rightarrow>
          (Inr (From_documents (vector_store self) documents), self,
           emit (EmbedDocuments (vector_store self) documents)
             (emit (LoadData docs_dir) (emit (Print ''Creating new vector store...'') w))))"
  by (auto simp add: create_index_def Let_def load_data_emit)

lemma create_index_reuse:
  "has_vectors self \<and> \<not> force_rebuild \<Longrightarrow>
   create_index self docs_dir force_rebuild w = load_index self w"
  by (simp add: create_index_def)


text \<open>
  Claim C2. On an instance whose flag \<open>has_vectors\<close> is set, \<open>create_index\<close> without
  \<open>force_rebuild\<close> is \<open>load_index\<close>: the same handle, the same object and the same world,
  with no document read and no embedding call among the calls it makes.
\<close>

theorem create_index_reuses_existing:
  assumes "has_vectors self"
  shows "create_index self docs_dir False w = load_index self w \<and>
         filter is_document_read (new_events w (snd (snd (create_index self docs_dir False w)))) = [] \<and>
         filter is_embedding_call (new_events w (snd (snd (create_index self docs_dir False w)))) = []"
  using assms by (simp add: create_index_reuse load_index_result new_events_def trace_emit)

text \<open>
  Witness for C2: the instance the constructor builds when the probe finds the table.
\<close>

theorem create_index_reuses_existing_witness:
  "fst (init sample_manager (sample_world (Returns (exists_rows [True])))) = Inr (sample_searcher True) \<and>
   has_vectors (sample_searcher True) \<and>
   create_index (sample_searcher True) [''db'', ''converted''] False (sample_world (Returns (exists_rows [True])))
     = load_index (sample_searcher True) (sample_world (Returns (exists_rows [True]))) \<and>
   new_events (sample_world (Returns (exists_rows [True])))
     (snd (snd (create_index (sample_searcher True) [''db'', ''converted''] False
                  (sample_world (Returns (exists_rows [True])))))) =
     [Print ''Loading existing vectors from database...'',
      BindVectorStore (vector_store (sample_searcher True))]"
proof -
  let ?w = "sample_world (Returns (exists_rows [True]))"
  have h: "has_vectors (sample_searcher True)"
    by (simp add: sample_searcher_def)
  have c: "create_index (sample_searcher True) [''db'', ''converted''] False ?w
             = load_index (sample_searcher True) ?w"
    using create_index_reuses_existing [OF h] by blast
  have "new_events ?w (snd (snd (load_index (sample_searcher True) ?w))) =
          [Print ''Loading existing vectors from database...'',
           BindVectorStore (vector_store (sample_searcher True))]"
    by (simp add: load_index_result new_events_def trace_emit)
  with h c show ?thesis
    by (simp add: init_sample)
qed



subsection \<open>The orchestrator\<close>

lemma main_unreachable:
  "\<not> db_reachable w \<Longrightarrow>
   main env force w = (Inl (Exc ConnectionError ''Database connection failed''), emit TestConnection w)"
  by (simp add: main_def test_connection_def Let_def)

lemma main_no_key:
  "db_reachable w \<Longrightarrow>
   getenv env ''OPENAI_API_KEY'' = None \<or> getenv env ''OPENAI_API_KEY'' = Some [] \<Longrightarrow>
   main env force w =
     (Inl (Exc ValueError ''OPENAI_API_KEY not found in environment variables''),
      emit (GetEnv ''OPENAI_API_KEY'') (emit TestConnection w))"
  by (auto simp add: main_def test_connection_def Let_def)

lemma main_init_fails:
  assumes "db_reachable w" and "getenv env ''OPENAI_API_KEY'' = Some k" and "k \<noteq> []"
    and "init (new_database_manager env) (emit (GetEnv ''OPENAI_API_KEY'') (emit TestConnection w))
           = (Inl e, w3)"
  shows "main env force w = (Inl e, w3)"
  using assms by (simp add: main_def test_connection_def Let_def)

lemma main_rebuild:
  assumes "db_reachable w" and "getenv env ''OPENAI_API_KEY'' = Some k" and "k \<noteq> []"
    and "init (new_database_manager env) (emit (GetEnv ''OPENAI_API_KEY'') (emit TestConnection w))
           = (Inr searcher, w3)"
    and "force \<or> \<not> has_vectors searcher"
    and "w5 = after_conversion (converter env)
                [[''db'', ''Chinook Data Dictionary.docx''], [''db'', ''Chinook Data Model.docx'']]
                [''db'', ''converted'']
                (emit (Print ''Converting documents and creating index...'') w3)"
  shows "main env force w =
     (case load_data [''db'', ''converted''] w5 of
        Inl e \<Rightarrow>
          (Inl e, emit (LoadData [''db'', ''converted''])
                    (emit (Print ''Creating new vector store...'') w5))
      | Inr docs \<Rightarrow>
          (Inr (),
           emit (Print (engine env (From_documents (vector_store searcher) docs)
                          ''What is the album table?''))
             (emit (QueryIndex (From_documents (vector_store searcher) docs)
                      ''What is the album table?'')
               (emit (EmbedDocuments (vector_store searcher) docs)
                 (emit (LoadData [''db'', ''converted''])
                   (emit (Print ''Creating new vector store...'') w5))))))"
proof -
  from assms(5) have "\<not> (has_vectors searcher \<and> \<not> force)"
    by blast
  note c = create_index_rebuild [OF this]
  have t: "test_connection (new_database_manager env) w = (True, emit TestConnection w)"
    using assms(1) by (simp add: test_connection_def)
  have b: "(force \<or> \<not> has_vectors searcher) = True"
    using assms(5) by simp
  show ?thesis
    unfolding assms(6)
    apply (simp only: main_def Let_def t prod.case)
    apply (simp only: assms(2,3,4) b prod.case sum.case if_True if_False simp_thms
        option.simps list.simps)
    apply (simp only: convert_documents_result prod.case sum.case)
    apply (simp only: c)
    apply (cases "load_data [''db'', ''converted'']
        (after_conversion (converter env)
           [[''db'', ''Chinook Data Dictionary.docx''], [''db'', ''Chinook Data Model.docx'']]
           [''db'', ''converted'']
           (emit (Print ''Converting documents and creating index...'') w3))")
     apply (simp_all only: prod.case sum.case query_def)
    done
qed

lemma main_reuse:
  assumes "db_reachable w" and "getenv env ''OPENAI_API_KEY'' = Some k" and "k \<noteq> []"
    and "init (new_database_manager env) (emit (GetEnv ''OPENAI_API_KEY'') (emit TestConnection w))
           = (Inr searcher, w3)"
    and "\<not> (force \<or> \<not> has_vectors searcher)"
    and "index = From_vector_store (vector_store searcher)"
  shows "main env force w =
     (Inr (),
      emit (Print (engine env index ''What is the album table?''))
        (emit (QueryIndex index ''What is the album table?'')
          (emit (BindVectorStore (vector_store searcher))
            (emit (Print ''Loading existing vectors from database...'')
              (emit (Print ''Using existing vector index'') w3)))))"
  using assms
  by (simp add: main_def test_connection_def Let_def load_index_result query_def)

lemma stages_main_rebuild:
  assumes "db_reachable w" and "getenv env ''OPENAI_API_KEY'' = Some k" and "k \<noteq> []"
    and "init (new_database_manager env) (emit (GetEnv ''OPENAI_API_KEY'') (emit TestConnection w))
           = (Inr searcher, w3)"
    and "force \<or> \<not> has_vectors searcher"
    and "w5 = after_conversion (converter env)
                [[''db'', ''Chinook Data Dictionary.docx''], [''db'', ''Chinook Data Model.docx'']]
                [''db'', ''converted'']
                (emit (Print ''Converting documents and creating index...'') w3)"
  shows "readable_under [''db'', ''converted''] w5 \<noteq> {} \<Longrightarrow>
           fst (main env force w) = Inr () \<and>
           stages (new_events w (snd (main env force w))) =
             [Conversion_Stage, Indexing_Stage, Query_Stage ''What is the album table?'']"
    and "readable_under [''db'', ''converted''] w5 = {} \<Longrightarrow>
           (\<exists>e. fst (main env force w) = Inl e \<and> exc_cls e = ValueError) \<and>
           stages (new_events w (snd (main env force w))) = [Conversion_Stage] \<and>
           filter is_document_read (new_events w (snd (main env force w)))
             = [LoadData [''db'', ''converted'']]"
proof -
  from init_trace [OF assms(4)] obtain es where
    es: "trace w3 = trace w @ [TestConnection, GetEnv ''OPENAI_API_KEY''] @ es"
    and s: "stages es = []" and q: "filter is_execute_query es = [ExecuteQuery (exists_query ''vector_store'')]"
    by (auto simp add: trace_emit)
  have r: "filter is_document_read es = []"
    using init_no_reads [OF assms(4)] es by (simp add: new_events_def trace_emit)
  note m = main_rebuild [OF assms]
  {
    assume "readable_under [''db'', ''converted''] w5 \<noteq> {}"
    from load_data_readable [OF this] show
      "fst (main env force w) = Inr () \<and>
       stages (new_events w (snd (main env force w))) =
         [Conversion_Stage, Indexing_Stage, Query_Stage ''What is the album table?'']"
      unfolding m
      by (simp add: assms(6) new_events_def trace_emit trace_after_conversion es stages_append
          stages_Cons stages_Nil stages_writes s)
  next
    assume "readable_under [''db'', ''converted''] w5 = {}"
    from load_data_unreadable [OF this] obtain e where
      e: "load_data [''db'', ''converted''] w5 = Inl e" "exc_cls e = ValueError"
      by blast
    show "(\<exists>e. fst (main env force w) = Inl e \<and> exc_cls e = ValueError) \<and>
           stages (new_events w (snd (main env force w))) = [Conversion_Stage] \<and>
           filter is_document_read (new_events w (snd (main env force w)))
             = [LoadData [''db'', ''converted'']]"
      unfolding m e
      by (simp add: e assms(6) new_events_def trace_emit trace_after_conversion es stages_append
          stages_Cons stages_Nil stages_writes s r comp_def)
  }
qed

lemma stages_main_reuse:
  assumes "db_reachable w" and "getenv env ''OPENAI_API_KEY'' = Some k" and "k \<noteq> []"
    and "init (new_database_manager env) (emit (GetEnv ''OPENAI_API_KEY'') (emit TestConnection w))
           = (Inr searcher, w3)"
    and "\<not> (force \<or> \<not> has_vectors searcher)"
  shows "stages (new_events w (snd (main env force w))) =
           [Load_Index, Query_Stage ''What is the album table?'']"
proof -
  from init_trace [OF assms(4)] obtain es where
    es: "trace w3 = trace w @ [TestConnection, GetEnv ''OPENAI_API_KEY''] @ es" and s: "stages es = []"
    by (auto simp add: trace_emit)
  show ?thesis
    unfolding main_reuse [OF assms refl]
    by (simp add: new_events_def trace_emit es stages_append stages_Cons stages_Nil s)
qed

lemma main_trace_prefix:
  assumes "db_reachable w"
  shows "\<exists>rest. trace (snd (main env force w)) =
           trace w @ [TestConnection, GetEnv ''OPENAI_API_KEY''] @ rest"
proof (cases "getenv env ''OPENAI_API_KEY'' = None \<or> getenv env ''OPENAI_API_KEY'' = Some []")
  case True
  with assms show ?thesis
    by (simp add: main_no_key trace_emit)
next
  case False
  then obtain k where k: "getenv env ''OPENAI_API_KEY'' = Some k" "k \<noteq> []"
    by auto
  let ?w2 = "emit (GetEnv ''OPENAI_API_KEY'') (emit TestConnection w)"
  obtain r w3 where i: "init (new_database_manager env) ?w2 = (r, w3)"
    by (cases "init (new_database_manager env) ?w2")
  from init_trace [OF i] obtain es where
    es: "trace w3 = trace w @ [TestConnection, GetEnv ''OPENAI_API_KEY''] @ es"
    by (auto simp add: trace_emit)
  show ?thesis
  proof (cases r)
    case (Inl e)
    with i have "main env force w = (Inl e, w3)"
      using main_init_fails [OF assms k] by simp
    with es show ?thesis
      by simp
  next
    case (Inr searcher)
    with i have i': "init (new_database_manager env) ?w2 = (Inr searcher, w3)"
      by simp
    show ?thesis
    proof (cases "force \<or> \<not> has_vectors searcher")
      case True
      show ?thesis
        unfolding main_rebuild [OF assms k i' True refl]
        by (simp add: trace_emit trace_after_conversion es split: sum.splits)
    next
      case False
      show ?thesis
        unfolding main_reuse [OF assms k i' False refl]
        by (simp add: trace_emit es)
    qed
  qed
qed

lemma main_partial_sample:
  "main partial_environment False (sample_world (Returns (exists_rows [False]))) =
     (Inl (Exc ValueError ''No files found in db/converted.''),
      emit (LoadData [''db'', ''converted''])
        (emit (Print ''Creating new vector store...'')
          (after_conversion partial_converter
             [[''db'', ''Chinook Data Dictionary.docx''], [''db'', ''Chinook Data Model.docx'']]
             [''db'', ''converted'']
             (emit (Print ''Converting documents and creating index...'')
               (emit (ExecuteQuery (exists_query ''vector_store''))
                 (emit (GetEnv ''OPENAI_API_KEY'')
                   (emit TestConnection (sample_world (Returns (exists_rows [False]))))))))))"
proof -
  let ?w = "sample_world (Returns (exists_rows [False]))"
  let ?ps = "[[''db'', ''Chinook Data Dictionary.docx''], [''db'', ''Chinook Data Model.docx'']]"
  let ?w3 = "emit (ExecuteQuery (exists_query ''vector_store''))
               (emit (GetEnv ''OPENAI_API_KEY'') (emit TestConnection ?w))"
  let ?w5 = "after_conversion partial_converter ?ps [''db'', ''converted'']
               (emit (Print ''Converting documents and creating index...'') ?w3)"
  have g: "getenv partial_environment ''OPENAI_API_KEY'' = Some ''sk-test''"
    by (simp add: partial_environment_def sample_environment_def)
  have k: "''sk-test'' \<noteq> []"
    by simp
  have c: "converter partial_environment = partial_converter"
    by (simp add: partial_environment_def)
  have i: "init (new_database_manager partial_environment)
             (emit (GetEnv ''OPENAI_API_KEY'') (emit TestConnection ?w))
           = (Inr (sample_searcher False), ?w3)"
    by (simp add: partial_environment_def sample_environment_def init_sample_manager
        db_answer_emit db_answer_sample_world)
  have f: "\<not> has_vectors (sample_searcher False)"
    by (simp add: sample_searcher_def)
  then have b: "False \<or> \<not> has_vectors (sample_searcher False)"
    by simp
  have "files (emit (Print ''Converting documents and creating index...'') ?w3) = []"
    by (simp add: files_emit sample_world_def)
  then have "readable_under [''db'', ''converted''] ?w5 = {}"
    by (rule unreadable_after_conversion) (simp add: partial_converter_def)
  then have "input_files [''db'', ''converted''] ?w5 = []"
    by (simp add: input_files_Nil)
  then have l: "load_data [''db'', ''converted''] ?w5
                  = Inl (Exc ValueError ''No files found in db/converted.'')"
    by (simp add: load_data_def is_dir_after_conversion)
  from main_rebuild [OF db_reachable_sample_world g k i b, of ?w5] c l show ?thesis
    by simp
qed

text \<open>
  Claim C4, as amended. Once the database answers the connection test, the key is
  present and the searcher is constructed, \<open>main\<close> converts and then calls the reader of
  the indexing stage when \<open>force_rebuild\<close> is set or the searcher has no vectors, and
  calls \<open>load_index\<close> otherwise. With \<open>load_index\<close> it returns normally and its stages
  are \<open>load_index\<close> and the query "What is the album table?". On the other path, when
  the converted directory holds a file to read, it returns normally and its stages are
  conversion, indexing and that query; when the directory holds none, the ValueError of
  the reader ends \<open>main\<close> after the conversion, with nothing embedded and no query. The
  directory holds a file to read as soon as one of the two documents converts with
  status \<open>SUCCESS\<close>.
\<close>

theorem main_rebuilds_or_reuses:
  assumes "db_reachable w" and "getenv env ''OPENAI_API_KEY'' = Some k" and "k \<noteq> []"
    and "init (new_database_manager env) (emit (GetEnv ''OPENAI_API_KEY'') (emit TestConnection w))
           = (Inr searcher, w3)"
  shows "(if force_rebuild \<or> \<not> has_vectors searcher
          then
            (if readable_under [''db'', ''converted'']
                  (after_conversion (converter env)
                     [[''db'', ''Chinook Data Dictionary.docx''], [''db'', ''Chinook Data Model.docx'']]
                     [''db'', ''converted'']
                     (emit (Print ''Converting documents and creating index...'') w3)) = {}
             then (\<exists>e. fst (main env force_rebuild w) = Inl e \<and> exc_cls e = ValueError) \<and>
                  stages (new_events w (snd (main env force_rebuild w))) = [Conversion_Stage] \<and>
                  filter is_document_read (new_events w (snd (main env force_rebuild w)))
                    = [LoadData [''db'', ''converted'']]
             else fst (main env force_rebuild w) = Inr () \<and>
                  stages (new_events w (snd (main env force_rebuild w))) =
                    [Conversion_Stage, Indexing_Stage, Query_Stage ''What is the album table?''])
          else fst (main env force_rebuild w) = Inr () \<and>
               stages (new_events w (snd (main env force_rebuild w))) =
                 [Load_Index, Query_Stage ''What is the album table?'']) \<and>
         (fst (converter env [''db'', ''Chinook Data Dictionary.docx'']) = SUCCESS \<or>
          fst (converter env [''db'', ''Chinook Data Model.docx'']) = SUCCESS
            \<longrightarrow> readable_under [''db'', ''converted'']
                  (after_conversion (converter env)
                     [[''db'', ''Chinook Data Dictionary.docx''], [''db'', ''Chinook Data Model.docx'']]
                     [''db'', ''converted'']
                     (emit (Print ''Converting documents and creating index...'') w3)) \<noteq> {})"
proof -
  let ?ps = "[[''db'', ''Chinook Data Dictionary.docx''], [''db'', ''Chinook Data Model.docx'']]"
  let ?w5 = "after_conversion (converter env) ?ps [''db'', ''converted'']
               (emit (Print ''Converting documents and creating index...'') w3)"
  have a: "readable_under [''db'', ''converted''] ?w5 \<noteq> {}"
    if "fst (converter env [''db'', ''Chinook Data Dictionary.docx'']) = SUCCESS \<or>
        fst (converter env [''db'', ''Chinook Data Model.docx'']) = SUCCESS"
    using that
      readable_after_conversion [of "[''db'', ''Chinook Data Dictionary.docx'']" ?ps "converter env"
        "[''db'', ''converted'']", OF _ _ chinook_outputs_visible(1)]
      readable_after_conversion [of "[''db'', ''Chinook Data Model.docx'']" ?ps "converter env"
        "[''db'', ''converted'']", OF _ _ chinook_outputs_visible(2)]
    by auto
  have b: ?thesis if c: "force_rebuild \<or> \<not> has_vectors searcher"
    using stages_main_rebuild [OF assms c refl] a c by (simp split: if_splits)
  have d: ?thesis if c: "\<not> (force_rebuild \<or> \<not> has_vectors searcher)"
    using main_reuse [OF assms c refl] stages_main_reuse [OF assms c] a c by simp
  from b d show ?thesis
    by blast
qed

text \<open>
  Claim C4 as stated fails: when both documents convert in part only, nothing is written,
  the reader of the indexing stage finds no file, and \<open>main\<close> ends with its ValueError
  after the conversion stage, without the query.
\<close>

theorem main_rebuilds_or_reuses_counterexample:
  "fst (main partial_environment False (sample_world (Returns (exists_rows [False]))))
     = Inl (Exc ValueError ''No files found in db/converted.'') \<and>
   stages (new_events (sample_world (Returns (exists_rows [False])))
     (snd (main partial_environment False (sample_world (Returns (exists_rows [False]))))))
     = [Conversion_Stage]"
  by (simp add: main_partial_sample new_events_def trace_emit trace_after_conversion
      stages_append stages_Cons stages_Nil stages_writes)

text \<open>
  Witness for C4: the table present without and with \<open>force_rebuild\<close>, and the table
  absent.
\<close>

theorem main_rebuilds_or_reuses_witness:
  "db_reachable (sample_world (Returns (exists_rows [True]))) \<and>
   getenv (sample_environment (Some ''sk-test'')) ''OPENAI_API_KEY'' = Some ''sk-test'' \<and>
   fst (main (sample_environment (Some ''sk-test'')) False (sample_world (Returns (exists_rows [True]))))
     = Inr () \<and>
   stages (new_events (sample_world (Returns (exists_rows [True])))
     (snd (main (sample_environment (Some ''sk-test'')) False
             (sample_world (Returns (exists_rows [True]))))))
     = [Load_Index, Query_Stage ''What is the album table?''] \<and>
   stages (new_events (sample_world (Returns (exists_rows [True])))
     (snd (main (sample_environment (Some ''sk-test'')) True
             (sample_world (Returns (exists_rows [True]))))))
     = [Conversion_Stage, Indexing_Stage, Query_Stage ''What is the album table?''] \<and>
   stages (new_events (sample_world (Returns (exists_rows [False])))
     (snd (main (sample_environment (Some ''sk-test'')) False
             (sample_world (Returns (exists_rows [False]))))))
     = [Conversion_Stage, Indexing_Stage, Query_Stage ''What is the album table?'']"
proof -
  have k: "''sk-test'' \<noteq> []"
    by simp
  have t: "has_vectors (sample_searcher True)" and f: "\<not> has_vectors (sample_searcher False)"
    by (simp_all add: sample_searcher_def)
  note mT = main_rebuilds_or_reuses [OF db_reachable_sample_world getenv_sample_environment k
      init_in_main_sample [where b = True]]
  note mF = main_rebuilds_or_reuses [OF db_reachable_sample_world getenv_sample_environment k
      init_in_main_sample [where b = False]]
  have s: "fst (converter (sample_environment (Some ''sk-test''))
                  [''db'', ''Chinook Data Dictionary.docx'']) = SUCCESS"
    by (simp add: sample_environment_def sample_converter_def path_name_def)
  from mT [where force_rebuild = False] mT [where force_rebuild = True]
    mF [where force_rebuild = False] t f s
    db_reachable_sample_world [of "Returns (exists_rows [True])"]
    getenv_sample_environment [of "Some ''sk-test''"]
  show ?thesis
    by (simp split: if_splits)
qed

text \<open>
  Claim C9. The first call \<open>main\<close> makes is the connection test; when it fails, \<open>main\<close>
  raises ConnectionError and has done nothing else. When it succeeds, the second call reads
  \<open>OPENAI_API_KEY\<close>; when the key is missing or empty, \<open>main\<close> raises ValueError and has
  done nothing else. Every conversion, indexing or query comes after these two calls.
\<close>

theorem main_validates_before_running:
  "(\<not> db_reachable w \<longrightarrow>
      main env force_rebuild w =
        (Inl (Exc ConnectionError ''Database connection failed''), emit TestConnection w)) \<and>
   (db_reachable w \<and>
    (getenv env ''OPENAI_API_KEY'' = None \<or> getenv env ''OPENAI_API_KEY'' = Some []) \<longrightarrow>
      main env force_rebuild w =
        (Inl (Exc ValueError ''OPENAI_API_KEY not found in environment variables''),
         emit (GetEnv ''OPENAI_API_KEY'') (emit TestConnection w))) \<and>
   take 1 (new_events w (snd (main env force_rebuild w))) = [TestConnection] \<and>
   (db_reachable w \<longrightarrow>
      take 2 (new_events w (snd (main env force_rebuild w)))
        = [TestConnection, GetEnv ''OPENAI_API_KEY''])"
proof -
  have a: "take 1 (new_events w (snd (main env force_rebuild w))) = [TestConnection]"
  proof (cases "db_reachable w")
    case True
    from main_trace_prefix [OF True, of env force_rebuild] show ?thesis
      by (auto simp add: new_events_def)
  next
    case False
    then show ?thesis
      by (simp add: main_unreachable new_events_def trace_emit)
  qed
  have b: "take 2 (new_events w (snd (main env force_rebuild w)))
             = [TestConnection, GetEnv ''OPENAI_API_KEY'']" if "db_reachable w"
    using main_trace_prefix [OF that, of env force_rebuild]
    by (auto simp add: new_events_def)
  from a b show ?thesis
    by (simp add: main_unreachable main_no_key)
qed

text \<open>
  Witness for C9: an unreachable database, a missing key, an empty key, and a run that
  passes both checks.
\<close>

theorem main_validates_before_running_witness:
  "main (sample_environment (Some ''sk-test'')) False unreachable_world =
     (Inl (Exc ConnectionError ''Database connection failed''),
      emit TestConnection unreachable_world) \<and>
   main (sample_environment None) False (sample_world (Returns (exists_rows [True]))) =
     (Inl (Exc ValueError ''OPENAI_API_KEY not found in environment variables''),
      emit (GetEnv ''OPENAI_API_KEY'')
        (emit TestConnection (sample_world (Returns (exists_rows [True]))))) \<and>
   main (sample_environment (Some [])) True (sample_world (Returns (exists_rows [True]))) =
     (Inl (Exc ValueError ''OPENAI_API_KEY not found in environment variables''),
      emit (GetEnv ''OPENAI_API_KEY'')
        (emit TestConnection (sample_world (Returns (exists_rows [True]))))) \<and>
   take 2 (new_events (sample_world (Returns (exists_rows [True])))
     (snd (main (sample_environment (Some ''sk-test'')) False
             (sample_world (Returns (exists_rows [True]))))))
     = [TestConnection, GetEnv ''OPENAI_API_KEY'']"
proof -
  have u: "\<not> db_reachable unreachable_world"
    by (simp add: unreachable_world_def sample_world_def)
  from main_validates_before_running
         [of unreachable_world "sample_environment (Some ''sk-test'')" False]
       main_validates_before_running
         [of "sample_world (Returns (exists_rows [True]))" "sample_environment None" False]
       main_validates_before_running
         [of "sample_world (Returns (exists_rows [True]))" "sample_environment (Some [])" True]
       main_validates_before_running
         [of "sample_world (Returns (exists_rows [True]))" "sample_environment (Some ''sk-test'')" False]
       u
  show ?thesis
    by (simp add: db_reachable_sample_world getenv_sample_environment)
qed

subsection \<open>The flag has_vectors\<close>

text \<open>
  Claim C10. The constructor sets \<open>has_vectors\<close> to the answer of the one probe it runs;
  \<open>convert_documents\<close>, \<open>create_index\<close>, \<open>load_index\<close> and \<open>query\<close> leave the flag as it
  is; and \<open>create_index\<close> takes the path of \<open>load_index\<close> exactly when the flag is set and
  \<open>force_rebuild\<close> is not, in whatever world it is called.
\<close>

theorem has_vectors_fixed_at_construction:
  "(init dm w0 = (Inr self0, w1) \<longrightarrow>
      check_vectors_exist self0 w0 = (Inr (has_vectors self0), w1) \<and>
      length (filter is_execute_query (new_events w0 w1)) = 1) \<and>
   has_vectors (fst (snd (convert_documents conv self input_paths output_dir w))) = has_vectors self \<and>
   has_vectors (fst (snd (create_index self docs_dir force_rebuild w))) = has_vectors self \<and>
   has_vectors (fst (snd (load_index self w))) = has_vectors self \<and>
   has_vectors (fst (snd (query eng self index text w))) = has_vectors self \<and>
   (stages (new_events w (snd (snd (create_index self docs_dir force_rebuild w)))) = [Load_Index])
     = (has_vectors self \<and> \<not> force_rebuild)"
proof -
  have a: "check_vectors_exist self0 w0 = (Inr (has_vectors self0), w1) \<and>
           length (filter is_execute_query (new_events w0 w1)) = 1"
    if i: "init dm w0 = (Inr self0, w1)"
  proof -
    from init_trace [OF i] have "length (filter is_execute_query (new_events w0 w1)) = 1"
      by (auto simp add: new_events_def)
    with init_Inr(3) [OF i] show ?thesis
      by simp
  qed
  have c: "has_vectors (fst (snd (create_index self docs_dir force_rebuild w))) = has_vectors self"
    by (simp add: create_index_def load_index_def Let_def split: sum.splits)
  have d: "(stages (new_events w (snd (snd (create_index self docs_dir force_rebuild w)))) = [Load_Index])
     = (has_vectors self \<and> \<not> force_rebuild)"
  proof (cases "has_vectors self \<and> \<not> force_rebuild")
    case True
    then show ?thesis
      by (simp add: create_index_reuse load_index_result new_events_def trace_emit
          stages_Cons stages_Nil)
  next
    case False
    from create_index_rebuild [OF False, of docs_dir w] False show ?thesis
      by (cases "load_data docs_dir w")
        (simp_all add: new_events_def trace_emit stages_Cons stages_Nil)
  qed
  from a c d show ?thesis
    by (simp add: convert_documents_result load_index_result query_def)
qed

text \<open>
  Witness for C10: a searcher constructed while the table is absent, then asked for an
  index once the table exists. The probe would now answer true; \<open>create_index\<close> still
  rebuilds, and the flag is still false.
\<close>

theorem has_vectors_fixed_at_construction_witness:
  "init sample_manager (sample_world (Returns (exists_rows [False])))
     = (Inr (sample_searcher False),
        emit (ExecuteQuery (exists_query ''vector_store'')) (sample_world (Returns (exists_rows [False])))) \<and>
   check_vectors_exist (sample_searcher False) (sample_world (Returns (exists_rows [False])))
     = (Inr (has_vectors (sample_searcher False)),
        emit (ExecuteQuery (exists_query ''vector_store'')) (sample_world (Returns (exists_rows [False])))) \<and>
   fst (check_vectors_exist (sample_searcher False) (sample_world (Returns (exists_rows [True]))))
     = Inr True \<and>
   stages (new_events (sample_world (Returns (exists_rows [True])))
     (snd (snd (create_index (sample_searcher False) [''db'', ''converted''] False
                  (sample_world (Returns (exists_rows [True])))))))
     \<noteq> [Load_Index] \<and>
   has_vectors (fst (snd (create_index (sample_searcher False) [''db'', ''converted''] False
                  (sample_world (Returns (exists_rows [True])))))) = False"
proof -
  let ?wF = "sample_world (Returns (exists_rows [False]))"
  let ?wT = "sample_world (Returns (exists_rows [True]))"
  note i = init_sample [of False]
  note h = has_vectors_fixed_at_construction
    [of sample_manager ?wF "sample_searcher False"
        "emit (ExecuteQuery (exists_query ''vector_store'')) ?wF"
        sample_converter "sample_searcher False" "[]" "[''db'', ''converted'']" ?wT
        "[''db'', ''converted'']" False sample_engine "From_vector_store (vector_store (sample_searcher False))" "[]"]
  have f: "\<not> has_vectors (sample_searcher False)"
    by (simp add: sample_searcher_def)
  have p: "fst (check_vectors_exist (sample_searcher False) ?wT) = Inr True"
    by (simp add: check_vectors_exist_cases db_answer_sample_world exists_rows_def)
  from h i f p show ?thesis
    by simp
qed

end
